theory Spec2Isabelle
  imports Complex_Main
begin

section \<open>Data model\<close>

text \<open>
  The module \<^verbatim>\<open>sbs_sklearn\<close> holds two functions with logic of their own:
  \<^verbatim>\<open>train_n_test\<close> (k-fold cross-validation of a model) and
  \<^verbatim>\<open>build_polynomial_dataframe\<close> (polynomial feature expansion).

  A pandas DataFrame is modelled by its number of rows (the length of its index, taken
  to be the default \<open>0, 1, \<dots>\<close>) and its columns in order, each a name with the list
  of its cell values. A DataFrame may hold the same column name twice, so the columns
  are an association list, not a map. A pandas Series is the list of its values.

  A numeric cell of the table that \<^verbatim>\<open>build_polynomial_dataframe\<close> works on is a
  number or is missing (\<^verbatim>\<open>NaN\<close>): \<open>Some v\<close> or \<open>None\<close>. Numbers are taken with exact
  arithmetic (any monoid); rounding and infinities of floating point are not modelled.
\<close>

record 'a dataframe =
  nrows :: nat
  columns :: "(string \<times> 'a list) list"

text \<open>\<^verbatim>\<open>data.columns\<close>: the column names in order.\<close>

definition column_names :: "'a dataframe \<Rightarrow> string list" where
  "column_names data = map fst (columns data)"

text \<open>
  \<^verbatim>\<open>data[names]\<close> with a list of names: for every requested name, in the order
  requested, the columns that carry it.
\<close>

definition getitem :: "'a dataframe \<Rightarrow> string list \<Rightarrow> 'a list list" where
  "getitem data names =
     concat (map (\<lambda>name. map snd (filter (\<lambda>kv. fst kv = name) (columns data))) names)"

text \<open>
  \<^verbatim>\<open>frame.prod(axis=1)\<close>, called with its defaults \<^verbatim>\<open>skipna=True, min_count=0\<close>: one
  value per row, the product of that row's cells over the selected columns, multiplied
  from the left starting at 1, with the missing cells left out. The result is never
  missing: a row with no cell present gives 1.
\<close>

definition prod_axis1 :: "nat \<Rightarrow> ('a::monoid_mult) option list list \<Rightarrow> 'a option list" where
  "prod_axis1 n cs =
     map (\<lambda>i. Some (foldl (\<lambda>acc c. case c ! i of None \<Rightarrow> acc | Some v \<Rightarrow> acc * v) 1 cs)) [0..<n]"

text \<open>
  \<^verbatim>\<open>frame[name] = series\<close>. A name the frame does not have is appended as the last
  column. A name it has keeps its position and every column carrying it takes the new
  values; except that when several columns carry the name and they are as many as the
  series has entries, pandas sets them one at a time, the \<open>j\<close>-th of them to the \<open>j\<close>-th
  entry of the series in every row.
\<close>

fun spread :: "string \<Rightarrow> nat \<Rightarrow> 'c list \<Rightarrow> (string \<times> 'c list) list \<Rightarrow> (string \<times> 'c list) list" where
  "spread name n entries [] = []"
| "spread name n entries (kv # kvs) =
     (if fst kv = name
      then (case entries of
              [] \<Rightarrow> kv # spread name n entries kvs
            | v # vs \<Rightarrow> (name, replicate n v) # spread name n vs kvs)
      else kv # spread name n entries kvs)"

definition setitem :: "'c dataframe \<Rightarrow> string \<Rightarrow> 'c list \<Rightarrow> 'c dataframe" where
  "setitem frame name series =
     (let carrying = length (filter (\<lambda>kv. fst kv = name) (columns frame))
      in if carrying = 0
         then frame\<lparr>columns := columns frame @ [(name, series)]\<rparr>
         else if 1 < carrying \<and> carrying = length series
         then frame\<lparr>columns := spread name (nrows frame) series (columns frame)\<rparr>
         else frame\<lparr>columns :=
                map (\<lambda>kv. if fst kv = name then (name, series) else kv) (columns frame)\<rparr>)"

text \<open>\<^verbatim>\<open>sep.join(parts)\<close> on strings.\<close>

fun join :: "string \<Rightarrow> string list \<Rightarrow> string" where
  "join sep [] = []"
| "join sep [x] = x"
| "join sep (x # y # ys) = x @ sep @ join sep (y # ys)"

text \<open>
  \<^verbatim>\<open>itertools.combinations_with_replacement(xs, r)\<close>: the \<open>r\<close>-tuples of elements of
  \<open>xs\<close> at non-decreasing positions, in lexicographic order of the positions.
\<close>

fun combinations_with_replacement :: "'a list \<Rightarrow> nat \<Rightarrow> 'a list list" where
  "combinations_with_replacement xs 0 = [[]]"
| "combinations_with_replacement [] (Suc r) = []"
| "combinations_with_replacement (x # xs) (Suc r) =
     map ((#) x) (combinations_with_replacement (x # xs) r)
       @ combinations_with_replacement xs (Suc r)"

section \<open>Polynomial expansion\<close>

text \<open>
  \<^verbatim>\<open>
  def build_polynomial_dataframe(data, der):
      poly_data = data.copy()
      for o in range(1, der + 1):
          for tpl in itertools.combinations_with_replacement(data.columns, o):
              name = "_x_".join(tpl)
              poly_data[name] = data[list(tpl)].prod(axis=1)
      return poly_data
  \<close>
  The body of the inner loop, then the inner loop, then the outer loop over
  \<open>range(1, der + 1)\<close>, which is empty when \<open>der < 1\<close>.
\<close>

definition add_term ::
  "('a::monoid_mult) option dataframe \<Rightarrow> 'a option dataframe \<Rightarrow> string list \<Rightarrow> 'a option dataframe"
where
  "add_term data poly_data tpl =
     setitem poly_data (join ''_x_'' tpl) (prod_axis1 (nrows data) (getitem data tpl))"

definition add_order ::
  "('a::monoid_mult) option dataframe \<Rightarrow> 'a option dataframe \<Rightarrow> int \<Rightarrow> 'a option dataframe"
where
  "add_order data poly_data order =
     foldl (add_term data) poly_data
       (combinations_with_replacement (column_names data) (nat order))"

definition build_polynomial_dataframe ::
  "('a::monoid_mult) option dataframe \<Rightarrow> int \<Rightarrow> 'a option dataframe"
where
  "build_polynomial_dataframe data der = foldl (add_order data) data [1..der]"

text \<open>
  The elementwise product \<^verbatim>\<open>a * b\<close> of two columns, in which a missing factor gives a
  missing product. It is not part of the module; the expansion is compared with it.
\<close>

definition elementwise_product ::
  "('a::monoid_mult) option list \<Rightarrow> 'a option list \<Rightarrow> 'a option list"
where
  "elementwise_product as bs =
     map2 (\<lambda>u v. case u of None \<Rightarrow> None | Some x \<Rightarrow> (case v of None \<Rightarrow> None | Some y \<Rightarrow> Some (x * y)))
       as bs"

section \<open>Arguments, errors and collaborators of the cross-validation\<close>

text \<open>
  \<^verbatim>\<open>n_folds\<close> is checked with \<^verbatim>\<open>type(n_folds)==int\<close>, so the argument is a
  Python object of any type. The exact type \<^verbatim>\<open>int\<close> excludes \<^verbatim>\<open>bool\<close>.
\<close>

datatype pyobj = PyNone | PyBool bool | PyInt int | PyFloat real | PyStr string

datatype pytype = Type_NoneType | Type_bool | Type_int | Type_float | Type_str

fun type_of :: "pyobj \<Rightarrow> pytype" where
  "type_of PyNone = Type_NoneType"
| "type_of (PyBool b) = Type_bool"
| "type_of (PyInt i) = Type_int"
| "type_of (PyFloat x) = Type_float"
| "type_of (PyStr s) = Type_str"

text \<open>
  What a call can raise: the function's own assertion, the splitter's and the array
  library's errors, the division by zero of \<^verbatim>\<open>%\<close>, and whatever the model or the
  metric raises, which is not caught and reaches the caller as it is.
\<close>

datatype 'e error = AssertionError | ValueError | IndexError | ZeroDivisionError | Raised 'e

text \<open>
  Arrays are mutable objects that the caller, the function and its collaborators can
  share, so they live in a store: two-dimensional arrays of feature cells and
  one-dimensional arrays of targets, by address, with the next address not yet in use.
  The feature table \<^verbatim>\<open>X\<close> is the address of its values, which \<^verbatim>\<open>X.values\<close> views, and
  the target \<^verbatim>\<open>y\<close>, a Series, is the address of its values, which
  \<^verbatim>\<open>y.values.ravel()\<close> views. The addresses below \<open>fresh\<close> are the ones in use, the
  caller's table and target among them.
\<close>

type_synonym addr = nat

record ('a, 'b) store =
  matrices :: "addr \<Rightarrow> 'a list list"
  vectors :: "addr \<Rightarrow> 'b list"
  fresh :: addr

definition new_matrix :: "('a, 'b) store \<Rightarrow> 'a list list \<Rightarrow> addr \<times> ('a, 'b) store" where
  "new_matrix s rows =
     (fresh s, s\<lparr>matrices := (matrices s)(fresh s := rows), fresh := Suc (fresh s)\<rparr>)"

definition new_vector :: "('a, 'b) store \<Rightarrow> 'b list \<Rightarrow> addr \<times> ('a, 'b) store" where
  "new_vector s entries =
     (fresh s, s\<lparr>vectors := (vectors s)(fresh s := entries), fresh := Suc (fresh s)\<rparr>)"

text \<open>
  \<^verbatim>\<open>arr[idx]\<close> with an array of indices: a new array holding copies of the selected
  entries; \<^verbatim>\<open>IndexError\<close> when an index is out of bounds.
\<close>

definition index_matrix ::
  "('a, 'b) store \<Rightarrow> addr \<Rightarrow> nat list \<Rightarrow> 'e error + addr \<times> ('a, 'b) store"
where
  "index_matrix s arr idx =
     (if list_all (\<lambda>i. i < length (matrices s arr)) idx
      then Inr (new_matrix s (map ((!) (matrices s arr)) idx))
      else Inl IndexError)"

definition index_vector ::
  "('a, 'b) store \<Rightarrow> addr \<Rightarrow> nat list \<Rightarrow> 'e error + addr \<times> ('a, 'b) store"
where
  "index_vector s arr idx =
     (if list_all (\<lambda>i. i < length (vectors s arr)) idx
      then Inr (new_vector s (map ((!) (vectors s arr)) idx))
      else Inl IndexError)"

text \<open>
  A model is an object with methods \<^verbatim>\<open>fit\<close> and \<^verbatim>\<open>predict\<close>: its state and the
  two methods. A method returns or raises, and either way it leaves the object in a new
  state and may have written to the arrays it was handed: \<^verbatim>\<open>fit(X, y)\<close> gives its
  outcome, the state after, and the contents it leaves in \<^verbatim>\<open>X\<close> and in \<^verbatim>\<open>y\<close>;
  \<^verbatim>\<open>predict(X)\<close> gives the predictions or the error, the state after, and the contents
  it leaves in \<^verbatim>\<open>X\<close>. A metric is a function of the true targets and the predictions;
  it gives the score or the error, and the contents it leaves in the array of targets.
\<close>

record ('a, 'b, 'm, 'p, 'e) estimator =
  state :: 'm
  fit :: "'m \<Rightarrow> 'a list list \<Rightarrow> 'b list \<Rightarrow> ('e + unit) \<times> 'm \<times> 'a list list \<times> 'b list"
  predict :: "'m \<Rightarrow> 'a list list \<Rightarrow> ('e + 'p) \<times> 'm \<times> 'a list list"

text \<open>
  What the function takes from scikit-learn, which is not part of this repository: the
  default model \<^verbatim>\<open>LinearRegression()\<close>, the default metric
  \<^verbatim>\<open>metrics.mean_squared_error\<close>, and the outcome of the random shuffle that
  \<^verbatim>\<open>KFold(shuffle=True)\<close> applies to the row indices.
\<close>

record ('a, 'b, 'm, 'p, 's, 'e) sklearn =
  LinearRegression :: "('a, 'b, 'm, 'p, 'e) estimator"
  mean_squared_error :: "'b list \<Rightarrow> 'p \<Rightarrow> ('e + 's) \<times> 'b list"
  shuffle :: "nat list \<Rightarrow> nat list"

text \<open>
  The two progress notices, by the values their text is formatted from: the study number
  \<^verbatim>\<open>len(scores) + 1\<close>, \<^verbatim>\<open>n_folds\<close>, \<^verbatim>\<open>len(train)\<close>, \<^verbatim>\<open>len(test)\<close> and, when
  not concise, \<^verbatim>\<open>test[:5]\<close>.
\<close>

datatype notice = Concise nat int nat nat | Detailed nat int nat nat "nat list"

text \<open>
  What a call works on and the caller sees afterwards: the store, the model object, and
  the notices logged.
\<close>

record ('a, 'b, 'm, 'p, 'e) world =
  memory :: "('a, 'b) store"
  model_obj :: "('a, 'b, 'm, 'p, 'e) estimator"
  logged :: "notice list"

section \<open>The k-fold splitter\<close>

text \<open>
  \<^verbatim>\<open>model_selection.KFold(n_splits, shuffle=True)\<close> as scikit-learn documents it. The
  constructor raises \<^verbatim>\<open>ValueError\<close> unless \<open>n_splits\<close> is at least 2. \<^verbatim>\<open>split(X, y)\<close>
  raises \<^verbatim>\<open>ValueError\<close> when \<open>X\<close> and \<open>y\<close> differ in length or there are fewer
  samples than splits; otherwise it shuffles the indices \<open>0..<n\<close>, cuts them into
  \<open>n_splits\<close> consecutive test chunks, the first \<open>n mod n_splits\<close> of them one element
  longer, and yields for each chunk the indices outside it and the indices inside it,
  both in increasing order. It reads the two arrays for their lengths only.
\<close>

definition KFold :: "int \<Rightarrow> 'e error + nat" where
  "KFold n_splits = (if n_splits \<le> 1 then Inl ValueError else Inr (nat n_splits))"

definition fold_sizes :: "nat \<Rightarrow> nat \<Rightarrow> nat list" where
  "fold_sizes n_splits n_samples =
     map (\<lambda>i. n_samples div n_splits + (if i < n_samples mod n_splits then 1 else 0))
       [0..<n_splits]"

fun iter_test_indices :: "nat list \<Rightarrow> nat list \<Rightarrow> nat list list" where
  "iter_test_indices indices [] = []"
| "iter_test_indices indices (fold_size # sizes) =
     take fold_size indices # iter_test_indices (drop fold_size indices) sizes"

definition split ::
  "nat \<Rightarrow> (nat list \<Rightarrow> nat list) \<Rightarrow> 'a list \<Rightarrow> 'b list \<Rightarrow> 'e error + (nat list \<times> nat list) list"
where
  "split n_splits shuffled X y =
     (if length X \<noteq> length y then Inl ValueError
      else if length X < n_splits then Inl ValueError
      else Inr (map (\<lambda>test_index.
                  (filter (\<lambda>i. i \<notin> set test_index) [0..<length X],
                   filter (\<lambda>i. i \<in> set test_index) [0..<length X]))
             (iter_test_indices (shuffled [0..<length X]) (fold_sizes n_splits (length X)))))"

section \<open>Cross-validation\<close>

text \<open>
  \<^verbatim>\<open>update_frequency or len(y) - 1\<close>: Python's \<^verbatim>\<open>or\<close> yields its right operand when
  the left one is falsy, which \<^verbatim>\<open>None\<close> and \<^verbatim>\<open>0\<close> both are.
\<close>

definition or_default :: "int option \<Rightarrow> int \<Rightarrow> int" where
  "or_default update_frequency d =
     (case update_frequency of None \<Rightarrow> d | Some u \<Rightarrow> if u = 0 then d else u)"

text \<open>
  The three calls to the collaborators, on arrays in the store: each runs the method on
  the contents of the arrays at the addresses it is handed, and writes back what the
  method leaves in them and, for the model, the state it leaves.
\<close>

definition call_fit ::
  "('a, 'b, 'm, 'p, 'e) world \<Rightarrow> addr \<Rightarrow> addr \<Rightarrow> ('e + unit) \<times> ('a, 'b, 'm, 'p, 'e) world"
where
  "call_fit w X_arr y_arr =
     (case fit (model_obj w) (state (model_obj w)) (matrices (memory w) X_arr) (vectors (memory w) y_arr) of
        (r, fitted, rows, entries) \<Rightarrow>
          (r, w\<lparr>memory := (memory w)\<lparr>matrices := (matrices (memory w))(X_arr := rows),
                                      vectors := (vectors (memory w))(y_arr := entries)\<rparr>,
                model_obj := (model_obj w)\<lparr>state := fitted\<rparr>\<rparr>))"

definition call_predict ::
  "('a, 'b, 'm, 'p, 'e) world \<Rightarrow> addr \<Rightarrow> ('e + 'p) \<times> ('a, 'b, 'm, 'p, 'e) world"
where
  "call_predict w X_arr =
     (case predict (model_obj w) (state (model_obj w)) (matrices (memory w) X_arr) of
        (r, left, rows) \<Rightarrow>
          (r, w\<lparr>memory := (memory w)\<lparr>matrices := (matrices (memory w))(X_arr := rows)\<rparr>,
                model_obj := (model_obj w)\<lparr>state := left\<rparr>\<rparr>))"

definition call_metric ::
  "('b list \<Rightarrow> 'p \<Rightarrow> ('e + 's) \<times> 'b list) \<Rightarrow> ('a, 'b, 'm, 'p, 'e) world \<Rightarrow> addr \<Rightarrow> 'p
   \<Rightarrow> ('e + 's) \<times> ('a, 'b, 'm, 'p, 'e) world"
where
  "call_metric metric w y_arr predicted =
     (case metric (vectors (memory w) y_arr) predicted of
        (r, entries) \<Rightarrow>
          (r, w\<lparr>memory := (memory w)\<lparr>vectors := (vectors (memory w))(y_arr := entries)\<rparr>\<rparr>))"

text \<open>The notice of a study, logged when the study number allows.\<close>

definition notify ::
  "int \<Rightarrow> int \<Rightarrow> bool \<Rightarrow> nat list \<Rightarrow> nat list \<Rightarrow> 's list \<Rightarrow> ('a, 'b, 'm, 'p, 'e) world
   \<Rightarrow> ('a, 'b, 'm, 'p, 'e) world"
where
  "notify n_folds update_frequency concise train test scores w =
     (if int (length scores) mod update_frequency = 0
      then w\<lparr>logged := logged w @
             [if \<not> concise
              then Detailed (length scores + 1) n_folds (length train) (length test) (take 5 test)
              else Concise (length scores + 1) n_folds (length train) (length test)]\<rparr>
      else w)"

text \<open>
  One pass of the loop body of \<^verbatim>\<open>train_n_test\<close>, for one \<open>(train, test)\<close> pair:
  \<^verbatim>\<open>
        if train_on_minority:
            train, test = (test, train)    # swap em!
        if len(scores) % update_frequency == 0:
            if not concise:
                logging.info(f"In study {len(scores) + 1}/{n_folds}, train on {len(train)} ...
                             f"then test on the other {len(test)}: first few test points = {test[:5]} ")
            else:
                logging.info(f"Study {len(scores) + 1}/{n_folds}: {len(train)} train rows;  {len(test)} test rows")
        model.fit(Xm[train], y[train])
        score = metric(y[test], model.predict(Xm[test]))
        scores.append(score)
  \<close>
  It yields the score or the error raised, and the world as it is at that point. The
  arguments of a call are evaluated from left to right, so \<^verbatim>\<open>y[test]\<close> is made before
  \<^verbatim>\<open>Xm[test]\<close> and the prediction.
\<close>

definition study ::
  "addr \<Rightarrow> addr \<Rightarrow> int \<Rightarrow> int \<Rightarrow> ('b list \<Rightarrow> 'p \<Rightarrow> ('e + 's) \<times> 'b list) \<Rightarrow> bool \<Rightarrow> bool
   \<Rightarrow> nat list \<times> nat list \<Rightarrow> 's list \<Rightarrow> ('a, 'b, 'm, 'p, 'e) world
   \<Rightarrow> ('e error + 's) \<times> ('a, 'b, 'm, 'p, 'e) world"
where
  "study Xm y n_folds update_frequency metric train_on_minority concise part scores w =
     (let train = (if train_on_minority then snd part else fst part);
          test = (if train_on_minority then fst part else snd part)
      in if update_frequency = 0 then (Inl ZeroDivisionError, w)
         else
           let w0 = notify n_folds update_frequency concise train test scores w
           in case index_matrix (memory w0) Xm train of
                Inl e \<Rightarrow> (Inl e, w0)
              | Inr (X_train, s1) \<Rightarrow>
             (case index_vector s1 y train of
                Inl e \<Rightarrow> (Inl e, w0\<lparr>memory := s1\<rparr>)
              | Inr (y_train, s2) \<Rightarrow>
             (case call_fit (w0\<lparr>memory := s2\<rparr>) X_train y_train of
                (Inl e, w3) \<Rightarrow> (Inl (Raised e), w3)
              | (Inr u, w3) \<Rightarrow>
             (case index_vector (memory w3) y test of
                Inl e \<Rightarrow> (Inl e, w3)
              | Inr (y_test, s4) \<Rightarrow>
             (case index_matrix s4 Xm test of
                Inl e \<Rightarrow> (Inl e, w3\<lparr>memory := s4\<rparr>)
              | Inr (X_test, s5) \<Rightarrow>
             (case call_predict (w3\<lparr>memory := s5\<rparr>) X_test of
                (Inl e, w6) \<Rightarrow> (Inl (Raised e), w6)
              | (Inr predicted, w6) \<Rightarrow>
             (case call_metric metric w6 y_test predicted of
                (Inl e, w7) \<Rightarrow> (Inl (Raised e), w7)
              | (Inr score, w7) \<Rightarrow> (Inr score, w7))))))))"

text \<open>
  The loop \<^verbatim>\<open>for (train, test) in kfold.split(Xm, y)\<close> over the folds left, with the
  scores appended so far; an error ends it.
\<close>

fun kfold_loop ::
  "addr \<Rightarrow> addr \<Rightarrow> int \<Rightarrow> int \<Rightarrow> ('b list \<Rightarrow> 'p \<Rightarrow> ('e + 's) \<times> 'b list) \<Rightarrow> bool \<Rightarrow> bool
   \<Rightarrow> (nat list \<times> nat list) list \<Rightarrow> 's list \<Rightarrow> ('a, 'b, 'm, 'p, 'e) world
   \<Rightarrow> ('e error + 's list) \<times> ('a, 'b, 'm, 'p, 'e) world"
where
  "kfold_loop Xm y n_folds update_frequency metric train_on_minority concise [] scores w =
     (Inr scores, w)"
| "kfold_loop Xm y n_folds update_frequency metric train_on_minority concise (part # folds) scores w =
     (case study Xm y n_folds update_frequency metric train_on_minority concise part scores w of
        (Inl e, w') \<Rightarrow> (Inl e, w')
      | (Inr score, w') \<Rightarrow>
          kfold_loop Xm y n_folds update_frequency metric train_on_minority concise folds
            (scores @ [score]) w')"

text \<open>
  The outcome of a call: the value returned or the error raised, and the world after.
\<close>

record ('a, 'b, 'm, 'p, 's, 'e) outcome =
  returned :: "'e error + 's list"
  world_after :: "('a, 'b, 'm, 'p, 'e) world"

text \<open>
  \<^verbatim>\<open>
  def train_n_test(X, y, n_folds, update_frequency=None, model=None, metric=None,
                   train_on_minority=False, concise=True):
      update_frequency = update_frequency or len(y) - 1
      model = LinearRegression() if model is None else model
      metric = metrics.mean_squared_error if metric is None else metric
      y = y.values.ravel()
      Xm = X.values
      assert type(n_folds)==int, "Please provide int number of folds"
      kfold = model_selection.KFold(n_splits=int(n_folds),shuffle=True)
      scores = []
      for (train, test) in kfold.split(Xm, y):
          ...
      return scores
  \<close>
  The function runs in the caller's store \<open>s\<close>. \<^verbatim>\<open>int(n_folds)\<close> is only evaluated once
  the assertion has passed, on a value of type \<^verbatim>\<open>int\<close>, where it is the value itself.
  The splitter is a generator: its checks run when the loop asks for the first fold,
  before anything in the loop body.
\<close>

definition train_n_test ::
  "('a, 'b, 'm, 'p, 's, 'e) sklearn \<Rightarrow> ('a, 'b) store \<Rightarrow> addr \<Rightarrow> addr \<Rightarrow> pyobj \<Rightarrow> int option
   \<Rightarrow> ('a, 'b, 'm, 'p, 'e) estimator option \<Rightarrow> ('b list \<Rightarrow> 'p \<Rightarrow> ('e + 's) \<times> 'b list) option
   \<Rightarrow> bool \<Rightarrow> bool \<Rightarrow> ('a, 'b, 'm, 'p, 's, 'e) outcome"
where
  "train_n_test env s X y n_folds update_frequency model metric train_on_minority concise =
     (let update_frequency = or_default update_frequency (int (length (vectors s y)) - 1);
          model = (case model of None \<Rightarrow> LinearRegression env | Some m \<Rightarrow> m);
          metric = (case metric of None \<Rightarrow> mean_squared_error env | Some f \<Rightarrow> f);
          w = \<lparr>memory = s, model_obj = model, logged = []\<rparr>
      in if type_of n_folds \<noteq> Type_int
         then \<lparr>returned = Inl AssertionError, world_after = w\<rparr>
         else
           case KFold (case n_folds of PyInt k \<Rightarrow> k | _ \<Rightarrow> 0) of
             Inl e \<Rightarrow> \<lparr>returned = Inl e, world_after = w\<rparr>
           | Inr kfold \<Rightarrow>
               (case split kfold (shuffle env) (matrices s X) (vectors s y) of
                  Inl e \<Rightarrow> \<lparr>returned = Inl e, world_after = w\<rparr>
                | Inr folds \<Rightarrow>
                    (case kfold_loop X y (case n_folds of PyInt k \<Rightarrow> k | _ \<Rightarrow> 0)
                            update_frequency metric train_on_minority concise folds [] w of
                       (r, w') \<Rightarrow> \<lparr>returned = r, world_after = w'\<rparr>)))"

section \<open>What the swap is compared with\<close>

text \<open>
  The two definitions of this section are not taken from the source. They say, in the
  words of the specification, what one round of cross-validation is: fit the model on the
  rows of one index set, then score it on the rows of another, on the table and the
  target as the caller passed them; and a run is one such round per pair of index sets,
  each score appended in turn, stopping at the first error. The function from the source
  is compared with them.
\<close>

definition fit_on_score_on ::
  "('b list \<Rightarrow> 'p \<Rightarrow> ('e + 's) \<times> 'b list) \<Rightarrow> 'a list list \<Rightarrow> 'b list \<Rightarrow> nat list \<Rightarrow> nat list
   \<Rightarrow> ('a, 'b, 'm, 'p, 'e) estimator \<Rightarrow> ('e error + 's) \<times> ('a, 'b, 'm, 'p, 'e) estimator"
where
  "fit_on_score_on metric table targets fit_rows score_rows m =
     (case fit m (state m) (map ((!) table) fit_rows) (map ((!) targets) fit_rows) of
        (r, fitted, rows, entries) \<Rightarrow>
          (case r of
             Inl e \<Rightarrow> (Inl (Raised e), m\<lparr>state := fitted\<rparr>)
           | Inr u \<Rightarrow>
               (case predict m fitted (map ((!) table) score_rows) of
                  (r', left, rows') \<Rightarrow>
                    (case r' of
                       Inl e \<Rightarrow> (Inl (Raised e), m\<lparr>state := left\<rparr>)
                     | Inr predicted \<Rightarrow>
                         (case fst (metric (map ((!) targets) score_rows) predicted) of
                            Inl e \<Rightarrow> (Inl (Raised e), m\<lparr>state := left\<rparr>)
                          | Inr score \<Rightarrow> (Inr score, m\<lparr>state := left\<rparr>))))))"

fun rounds ::
  "('b list \<Rightarrow> 'p \<Rightarrow> ('e + 's) \<times> 'b list) \<Rightarrow> 'a list list \<Rightarrow> 'b list \<Rightarrow> (nat list \<times> nat list) list
   \<Rightarrow> 's list \<Rightarrow> ('a, 'b, 'm, 'p, 'e) estimator
   \<Rightarrow> ('e error + 's list) \<times> ('a, 'b, 'm, 'p, 'e) estimator"
where
  "rounds metric table targets [] scores m = (Inr scores, m)"
| "rounds metric table targets (pair # pairs) scores m =
     (case fit_on_score_on metric table targets (fst pair) (snd pair) m of
        (Inl e, m') \<Rightarrow> (Inl e, m')
      | (Inr score, m') \<Rightarrow> rounds metric table targets pairs (scores @ [score]) m')"

section \<open>Example inputs\<close>

text \<open>
  A small model, metric and data set on which the definitions are evaluated. The model
  remembers the sum of the targets it was last fitted on and predicts that sum for every
  row; its \<^verbatim>\<open>fit\<close> and its \<^verbatim>\<open>predict\<close> empty the rows they are handed and \<^verbatim>\<open>fit\<close>
  sets the targets it is handed to 0. The metric is the sum of squared errors, and it
  sets the targets it is handed to 0. The shuffle reverses the indices. The caller's
  store holds the table of five rows at address 0 and the target at address 1.
\<close>

definition example_model :: "(int, int, int, int list, unit) estimator" where
  "example_model =
     \<lparr>state = 0,
      fit = (\<lambda>st rows ys. (Inr (), sum_list ys, map (\<lambda>row. []) rows, map (\<lambda>v. 0) ys)),
      predict = (\<lambda>st rows. (Inr (map (\<lambda>row. st) rows), st, map (\<lambda>row. []) rows))\<rparr>"

definition example_metric :: "int list \<Rightarrow> int list \<Rightarrow> (unit + int) \<times> int list" where
  "example_metric ys ps =
     (Inr (sum_list (map2 (\<lambda>a b. (a - b) * (a - b)) ys ps)), map (\<lambda>v. 0) ys)"

definition example_env :: "(int, int, int, int list, int, unit) sklearn" where
  "example_env =
     \<lparr>LinearRegression = example_model, mean_squared_error = example_metric, shuffle = rev\<rparr>"

definition example_store :: "(int, int) store" where
  "example_store =
     \<lparr>matrices = (\<lambda>a. if a = 0 then [[1], [2], [3], [4], [5]] else []),
      vectors = (\<lambda>a. if a = 1 then [1, 2, 3, 4, 5] else []),
      fresh = 2\<rparr>"

definition example_X :: addr where
  "example_X = 0"

definition example_y :: addr where
  "example_y = 1"


text \<open>A model whose methods leave its state as it was.\<close>

definition example_fixed_model :: "(int, int, int, int list, unit) estimator" where
  "example_fixed_model =
     \<lparr>state = 7,
      fit = (\<lambda>st rows ys. (Inr (), st, map (\<lambda>row. []) rows, map (\<lambda>v. 0) ys)),
      predict = (\<lambda>st rows. (Inr (map (\<lambda>row. st) rows), st, map (\<lambda>row. []) rows))\<rparr>"

definition example_table :: "int option dataframe" where
  "example_table =
     \<lparr>nrows = 2, columns = [(''a'', [Some 2, Some 3]), (''b'', [Some 5, Some 7])]\<rparr>"

text \<open>The same table with the second cell of column \<open>a\<close> missing.\<close>

definition example_table_nan :: "int option dataframe" where
  "example_table_nan =
     \<lparr>nrows = 2, columns = [(''a'', [Some 2, None]), (''b'', [Some 5, Some 7])]\<rparr>"

section \<open>Properties of the polynomial expansion\<close>

lemma combinations_a_b_1:
  "combinations_with_replacement [''a'', ''b''] (Suc 0) = [[''a''], [''b'']]"
  by simp

lemma combinations_a_b_2:
  "combinations_with_replacement [''a'', ''b''] 2 = [[''a'', ''a''], [''a'', ''b''], [''b'', ''b'']]"
  by (simp add: eval_nat_numeral)

lemma expand_a_b:
  "build_polynomial_dataframe \<lparr>nrows = n, columns = [(''a'', as), (''b'', bs)]\<rparr> 2 =
     \<lparr>nrows = n,
      columns = [(''a'', prod_axis1 n [as]), (''b'', prod_axis1 n [bs]),
                 (''a_x_a'', prod_axis1 n [as, as]), (''a_x_b'', prod_axis1 n [as, bs]),
                 (''b_x_b'', prod_axis1 n [bs, bs])]\<rparr>"
  by (simp add: build_polynomial_dataframe_def upto_rec1 add_order_def column_names_def
      combinations_a_b_1 combinations_a_b_2 add_term_def getitem_def setitem_def)

lemma prod_axis1_present:
  "i < n \<Longrightarrow> as ! i = Some u \<Longrightarrow> bs ! i = Some v \<Longrightarrow>
   prod_axis1 n [as] ! i = Some u \<and> prod_axis1 n [as, bs] ! i = Some (u * v)"
  by (simp add: prod_axis1_def)

lemma expand_below_one: "der < 1 \<Longrightarrow> build_polynomial_dataframe data der = data"
  by (simp add: build_polynomial_dataframe_def)

text \<open>
  Claim C5, as the code has it. The claim says that a negative \<open>maxDegree\<close> makes
  \<open>expand\<close> fail with InvalidArgument. \<^verbatim>\<open>build_polynomial_dataframe\<close> checks nothing:
  for a negative \<open>der\<close> the range \<open>range(1, der + 1)\<close> is empty, no column is computed,
  and the copy of the table is returned as it is.
\<close>

theorem expand_negative_degree_returns_table:
  "der < 0 \<Longrightarrow> build_polynomial_dataframe data der = data"
  by (simp add: expand_below_one)

theorem expand_negative_degree_returns_table_witness:
  "(- 3 :: int) < 0 \<and> build_polynomial_dataframe example_table (- 3) = example_table"
  using expand_negative_degree_returns_table [of "- 3" example_table] by simp

text \<open>
  Counterexample to claim C5 as stated: with \<open>der = -1\<close> the call returns normally, and
  what it returns is the table it was given.
\<close>

theorem expand_negative_degree_counterexample:
  "build_polynomial_dataframe example_table (- 1) = example_table
   \<and> column_names (build_polynomial_dataframe example_table (- 1)) = [''a'', ''b'']"
  by (simp add: expand_below_one example_table_def column_names_def)

text \<open>
  Claim C6, as the code has it. The claim says that on a table with exactly the columns
  \<open>a\<close> and \<open>b\<close>, \<open>expand(table, 2)\<close> has exactly the columns
  \<open>{a, b, a, b, a_x_a, a_x_b, b_x_b}\<close>, no name twice, and that column \<open>a_x_b\<close> is the
  elementwise product of \<open>a\<close> and \<open>b\<close>. The degree-1 terms \<open>a\<close> and \<open>b\<close> are assigned to
  the columns of those names that the copy already has, so the result has the five
  columns \<open>a, b, a_x_a, a_x_b, b_x_b\<close> in this order, which as a set of names is the
  set the claim lists. Every column is a \<^verbatim>\<open>prod(axis=1)\<close>, which leaves missing cells
  out: in a row where \<open>a\<close> and \<open>b\<close> are both present, \<open>a_x_b\<close> is their product and \<open>a\<close>
  and \<open>b\<close> keep their values.
\<close>

theorem expand_a_b_degree_two:
  fixes as bs :: "('a::monoid_mult) option list"
  shows "column_names (build_polynomial_dataframe
              \<lparr>nrows = n, columns = [(''a'', as), (''b'', bs)]\<rparr> 2)
           = [''a'', ''b'', ''a_x_a'', ''a_x_b'', ''b_x_b'']
       \<and> set (column_names (build_polynomial_dataframe
              \<lparr>nrows = n, columns = [(''a'', as), (''b'', bs)]\<rparr> 2))
           = {''a'', ''b'', ''a'', ''b'', ''a_x_a'', ''a_x_b'', ''b_x_b''}
       \<and> distinct (column_names (build_polynomial_dataframe
              \<lparr>nrows = n, columns = [(''a'', as), (''b'', bs)]\<rparr> 2))
       \<and> (\<forall>i u v. i < n \<longrightarrow> as ! i = Some u \<longrightarrow> bs ! i = Some v \<longrightarrow>
            map (\<lambda>column. column ! i)
              (getitem (build_polynomial_dataframe
                 \<lparr>nrows = n, columns = [(''a'', as), (''b'', bs)]\<rparr> 2) [''a'', ''b'', ''a_x_b''])
            = [Some u, Some v, Some (u * v)])"
proof -
  have "\<forall>i u v. i < n \<longrightarrow> as ! i = Some u \<longrightarrow> bs ! i = Some v \<longrightarrow>
      [prod_axis1 n [as] ! i, prod_axis1 n [bs] ! i, prod_axis1 n [as, bs] ! i]
        = [Some u, Some v, Some (u * v)]"
    by (simp add: prod_axis1_def)
  then show ?thesis
    by (auto simp: expand_a_b column_names_def getitem_def)
qed

theorem expand_a_b_degree_two_witness:
  "column_names (build_polynomial_dataframe example_table 2)
       = [''a'', ''b'', ''a_x_a'', ''a_x_b'', ''b_x_b'']
   \<and> map (\<lambda>column. column ! 1)
        (getitem (build_polynomial_dataframe example_table 2) [''a'', ''b'', ''a_x_b''])
       = [Some 3, Some 7, Some 21]"
proof -
  note t = expand_a_b_degree_two [of 2 "[Some 2, Some (3 :: int)]" "[Some 5, Some 7]"]
  from t [THEN conjunct2, THEN conjunct2, THEN conjunct2, THEN spec, THEN spec, THEN spec,
      of 1 3 7]
  have "map (\<lambda>column. column ! 1)
        (getitem (build_polynomial_dataframe example_table 2) [''a'', ''b'', ''a_x_b''])
       = [Some 3, Some 7, Some 21]"
    by (simp add: example_table_def)
  with t [THEN conjunct1] show ?thesis
    by (simp add: example_table_def)
qed

text \<open>
  Counterexample to claim C6 as stated: with the second cell of \<open>a\<close> missing, the
  result has five columns, not seven; column \<open>a_x_b\<close> is \<open>[10, 7]\<close> where the
  elementwise product is \<open>[10, NaN]\<close>; and column \<open>a\<close> comes back as \<open>[2, 1]\<close>.
\<close>

theorem expand_a_b_counterexample:
  "length (column_names (build_polynomial_dataframe example_table_nan 2)) = 5
   \<and> getitem (build_polynomial_dataframe example_table_nan 2) [''a_x_b''] = [[Some 10, Some 7]]
   \<and> elementwise_product [Some 2, None] [Some 5, Some 7] = [Some 10, None :: int option]
   \<and> getitem (build_polynomial_dataframe example_table_nan 2) [''a''] = [[Some 2, Some 1]]"
  by code_simp

text \<open>
  Claim C8: \<open>expand(table, 0)\<close> is the table unchanged: the same columns with the same
  values, and no generated column.
\<close>

theorem expand_degree_zero_is_identity:
  "build_polynomial_dataframe data 0 = data
   \<and> column_names (build_polynomial_dataframe data 0) = column_names data"
  by (simp add: expand_below_one)

section \<open>Properties of the splitter and of the loop\<close>




lemma split_Inr_bounds:
  assumes "split n_splits shuffled X y = Inr folds"
  shows "list_all (\<lambda>part. list_all (\<lambda>i. i < length X) (fst part)
                          \<and> list_all (\<lambda>i. i < length X) (snd part)) folds"
  using assms by (auto simp: split_def list_all_iff split: if_splits)

lemma or_default_nonzero: "2 \<le> n \<Longrightarrow> or_default update_frequency (int n - 1) \<noteq> 0"
  by (auto simp: or_default_def split: option.splits)

lemma notify_frame [simp]:
  "memory (notify n_folds update_frequency concise train test scores w) = memory w"
  "model_obj (notify n_folds update_frequency concise train test scores w) = model_obj w"
  by (simp_all add: notify_def)

lemma study_no_zero_division:
  "update_frequency \<noteq> 0 \<Longrightarrow>
   fst (study X y n_folds update_frequency metric train_on_minority concise part scores w)
     \<noteq> Inl ZeroDivisionError"
  unfolding study_def Let_def
  by (auto simp: index_matrix_def index_vector_def
      split: prod.splits sum.splits if_splits split del: if_split)

lemma kfold_loop_no_zero_division:
  "update_frequency \<noteq> 0 \<Longrightarrow>
   fst (kfold_loop X y n_folds update_frequency metric train_on_minority concise folds scores w)
     \<noteq> Inl ZeroDivisionError"
proof (induction folds arbitrary: scores w)
  case Nil
  then show ?case by simp
next
  case (Cons part folds)
  obtain r w' where s: "study X y n_folds update_frequency metric train_on_minority concise part
      scores w = (r, w')"
    by (cases "study X y n_folds update_frequency metric train_on_minority concise part scores w")
  from study_no_zero_division[OF Cons.prems, of X y n_folds metric train_on_minority concise part
      scores w] s
  have "r \<noteq> Inl ZeroDivisionError" by simp
  with s Cons show ?case by (cases r) auto
qed

text \<open>
  One pass of the loop body against one round of the comparison: as long as the table
  and the target were allocated before (below \<open>n\<close>), the pass gives the round's score and
  model, and leaves every array allocated before as it was.
\<close>

lemma study_refines:
  assumes uf: "update_frequency \<noteq> 0"
    and alloc: "X < n" "y < n" "n \<le> fresh (memory w)"
    and len: "length (matrices (memory w) X) = length (vectors (memory w) y)"
    and b: "list_all (\<lambda>i. i < length (matrices (memory w) X)) (fst part)"
      "list_all (\<lambda>i. i < length (matrices (memory w) X)) (snd part)"
  shows "fst (study X y n_folds update_frequency metric train_on_minority concise part scores w)
       = fst (fit_on_score_on metric (matrices (memory w) X) (vectors (memory w) y)
               (if train_on_minority then snd part else fst part)
               (if train_on_minority then fst part else snd part) (model_obj w))
     \<and> model_obj (snd (study X y n_folds update_frequency metric train_on_minority concise part
          scores w))
       = snd (fit_on_score_on metric (matrices (memory w) X) (vectors (memory w) y)
               (if train_on_minority then snd part else fst part)
               (if train_on_minority then fst part else snd part) (model_obj w))
     \<and> n \<le> fresh (memory (snd (study X y n_folds update_frequency metric train_on_minority concise
          part scores w)))
     \<and> (\<forall>a<n. matrices (memory (snd (study X y n_folds update_frequency metric train_on_minority
                  concise part scores w))) a = matrices (memory w) a
             \<and> vectors (memory (snd (study X y n_folds update_frequency metric train_on_minority
                  concise part scores w))) a = vectors (memory w) a)"
proof -
  define train where "train = (if train_on_minority then snd part else fst part)"
  define test where "test = (if train_on_minority then fst part else snd part)"
  have bx: "list_all (\<lambda>i. i < length (matrices (memory w) X)) train"
    "list_all (\<lambda>i. i < length (matrices (memory w) X)) test"
    and by': "list_all (\<lambda>i. i < length (vectors (memory w) y)) train"
    "list_all (\<lambda>i. i < length (vectors (memory w) y)) test"
    using b len by (auto simp: train_def test_def)
  have ne: "X \<noteq> fresh (memory w)" "y \<noteq> fresh (memory w)"
    "X \<noteq> Suc (fresh (memory w))" "y \<noteq> Suc (fresh (memory w))"
    "X \<noteq> Suc (Suc (fresh (memory w)))" "y \<noteq> Suc (Suc (fresh (memory w)))"
    "X \<noteq> Suc (Suc (Suc (fresh (memory w))))" "y \<noteq> Suc (Suc (Suc (fresh (memory w))))"
    using alloc by simp_all
  show ?thesis
    using uf bx by' ne alloc
    unfolding study_def fit_on_score_on_def Let_def train_def[symmetric] test_def[symmetric]
    by (auto simp: call_fit_def call_predict_def call_metric_def index_matrix_def
        index_vector_def new_matrix_def new_vector_def
        split: prod.splits sum.splits split del: if_split)
qed

lemma kfold_loop_refines:
  assumes uf: "update_frequency \<noteq> 0" and alloc: "X < n" "y < n"
  shows "n \<le> fresh (memory w)
     \<Longrightarrow> length (matrices (memory w) X) = length (vectors (memory w) y)
     \<Longrightarrow> list_all (\<lambda>part. list_all (\<lambda>i. i < length (matrices (memory w) X)) (fst part)
                          \<and> list_all (\<lambda>i. i < length (matrices (memory w) X)) (snd part)) folds
     \<Longrightarrow> fst (kfold_loop X y n_folds update_frequency metric train_on_minority concise folds
                scores w)
           = fst (rounds metric (matrices (memory w) X) (vectors (memory w) y)
                    (if train_on_minority then map prod.swap folds else folds) scores (model_obj w))
         \<and> model_obj (snd (kfold_loop X y n_folds update_frequency metric train_on_minority concise
              folds scores w))
           = snd (rounds metric (matrices (memory w) X) (vectors (memory w) y)
                    (if train_on_minority then map prod.swap folds else folds) scores (model_obj w))
         \<and> n \<le> fresh (memory (snd (kfold_loop X y n_folds update_frequency metric
              train_on_minority concise folds scores w)))
         \<and> (\<forall>a<n. matrices (memory (snd (kfold_loop X y n_folds update_frequency metric
                      train_on_minority concise folds scores w))) a = matrices (memory w) a
                 \<and> vectors (memory (snd (kfold_loop X y n_folds update_frequency metric
                      train_on_minority concise folds scores w))) a = vectors (memory w) a)"
proof (induction folds arbitrary: scores w)
  case Nil
  then show ?case by simp
next
  case (Cons part folds)
  from Cons.prems(3)
  have b: "list_all (\<lambda>i. i < length (matrices (memory w) X)) (fst part)"
    "list_all (\<lambda>i. i < length (matrices (memory w) X)) (snd part)"
    and rest: "list_all (\<lambda>part. list_all (\<lambda>i. i < length (matrices (memory w) X)) (fst part)
                          \<and> list_all (\<lambda>i. i < length (matrices (memory w) X)) (snd part)) folds"
    by simp_all
  obtain r w' where s: "study X y n_folds update_frequency metric train_on_minority concise part
      scores w = (r, w')"
    by (cases "study X y n_folds update_frequency metric train_on_minority concise part scores w")
  obtain r0 m0 where f: "fit_on_score_on metric (matrices (memory w) X) (vectors (memory w) y)
               (if train_on_minority then snd part else fst part)
               (if train_on_minority then fst part else snd part) (model_obj w) = (r0, m0)"
    by (cases "fit_on_score_on metric (matrices (memory w) X) (vectors (memory w) y)
               (if train_on_minority then snd part else fst part)
               (if train_on_minority then fst part else snd part) (model_obj w)")
  from study_refines[OF uf alloc Cons.prems(1) Cons.prems(2) b, of n_folds metric
      train_on_minority concise scores] s f
  have r: "r = r0" and m: "model_obj w' = m0" and fr: "n \<le> fresh (memory w')"
    and same: "\<forall>a<n. matrices (memory w') a = matrices (memory w) a
                 \<and> vectors (memory w') a = vectors (memory w) a"
    by simp_all
  from same alloc have xy: "matrices (memory w') X = matrices (memory w) X"
    "vectors (memory w') y = vectors (memory w) y"
    by simp_all
  have f': "fit_on_score_on metric (matrices (memory w) X) (vectors (memory w) y)
      (fst (if train_on_minority then prod.swap part else part))
      (snd (if train_on_minority then prod.swap part else part)) (model_obj w) = (r0, m0)"
    using f by (cases train_on_minority) simp_all
  show ?case
  proof (cases r)
    case (Inl e)
    with r have r0: "r0 = Inl e" by simp
    from s m fr same f' show ?thesis
      unfolding r r0 by (cases train_on_minority) simp_all
  next
    case (Inr score)
    with r have r0: "r0 = Inr score" by simp
    from Cons.IH[of w' "scores @ [score]"] fr Cons.prems(2) rest xy
    have ih: "fst (kfold_loop X y n_folds update_frequency metric train_on_minority concise folds
                (scores @ [score]) w')
           = fst (rounds metric (matrices (memory w) X) (vectors (memory w) y)
                    (if train_on_minority then map prod.swap folds else folds) (scores @ [score])
                    (model_obj w'))
         \<and> model_obj (snd (kfold_loop X y n_folds update_frequency metric train_on_minority concise
              folds (scores @ [score]) w'))
           = snd (rounds metric (matrices (memory w) X) (vectors (memory w) y)
                    (if train_on_minority then map prod.swap folds else folds) (scores @ [score])
                    (model_obj w'))
         \<and> n \<le> fresh (memory (snd (kfold_loop X y n_folds update_frequency metric
              train_on_minority concise folds (scores @ [score]) w')))
         \<and> (\<forall>a<n. matrices (memory (snd (kfold_loop X y n_folds update_frequency metric
                      train_on_minority concise folds (scores @ [score]) w'))) a
                     = matrices (memory w') a
                 \<and> vectors (memory (snd (kfold_loop X y n_folds update_frequency metric
                      train_on_minority concise folds (scores @ [score]) w'))) a
                     = vectors (memory w') a)"
      by simp
    with s m same f' show ?thesis
      unfolding r r0 by (cases train_on_minority) simp_all
  qed
qed

lemma train_n_test_not_int:
  "type_of n_folds \<noteq> Type_int \<Longrightarrow>
   train_n_test env s X y n_folds update_frequency model metric train_on_minority concise =
     \<lparr>returned = Inl AssertionError,
      world_after = \<lparr>memory = s,
        model_obj = (case model of None \<Rightarrow> LinearRegression env | Some m \<Rightarrow> m), logged = []\<rparr>\<rparr>"
  by (simp add: train_n_test_def)

lemma train_n_test_below_two:
  "k \<le> 1 \<Longrightarrow>
   train_n_test env s X y (PyInt k) update_frequency model metric train_on_minority concise =
     \<lparr>returned = Inl ValueError,
      world_after = \<lparr>memory = s,
        model_obj = (case model of None \<Rightarrow> LinearRegression env | Some m \<Rightarrow> m), logged = []\<rparr>\<rparr>"
  by (simp add: train_n_test_def KFold_def)

lemma train_n_test_bad_samples:
  "2 \<le> k \<Longrightarrow>
   length (matrices s X) \<noteq> length (vectors s y) \<or> length (vectors s y) < nat k \<Longrightarrow>
   train_n_test env s X y (PyInt k) update_frequency model metric train_on_minority concise =
     \<lparr>returned = Inl ValueError,
      world_after = \<lparr>memory = s,
        model_obj = (case model of None \<Rightarrow> LinearRegression env | Some m \<Rightarrow> m), logged = []\<rparr>\<rparr>"
  by (auto simp: train_n_test_def KFold_def split_def Let_def)

lemma train_n_test_loop:
  fixes env :: "('a, 'b, 'm, 'p, 's, 'e) sklearn"
  assumes "2 \<le> k" and "length (matrices s X) = length (vectors s y)"
    and "nat k \<le> length (vectors s y)"
  shows "\<exists>folds res. split (nat k) (shuffle env) (matrices s X) (vectors s y)
         = (Inr folds :: 'e error + _)
     \<and> res = kfold_loop X y k (or_default update_frequency (int (length (vectors s y)) - 1))
                 (case metric of None \<Rightarrow> mean_squared_error env | Some f \<Rightarrow> f)
                 train_on_minority concise folds []
                 \<lparr>memory = s,
                  model_obj = (case model of None \<Rightarrow> LinearRegression env | Some m \<Rightarrow> m),
                  logged = []\<rparr>
     \<and> train_n_test env s X y (PyInt k) update_frequency model metric train_on_minority concise =
           \<lparr>returned = fst res, world_after = snd res\<rparr>"
  using assms
  by (simp add: train_n_test_def KFold_def split_def Let_def case_prod_beta)

lemma train_n_test_cases:
  fixes env :: "('a, 'b, 'm, 'p, 's, 'e) sklearn"
  shows "(\<exists>e. e \<noteq> ZeroDivisionError
            \<and> train_n_test env s X y n_folds update_frequency model metric train_on_minority
                concise =
              \<lparr>returned = Inl e,
               world_after = \<lparr>memory = s,
                 model_obj = (case model of None \<Rightarrow> LinearRegression env | Some m \<Rightarrow> m),
                 logged = []\<rparr>\<rparr>)
       \<or> (\<exists>k folds res. n_folds = PyInt k \<and> 2 \<le> k
            \<and> length (matrices s X) = length (vectors s y) \<and> nat k \<le> length (vectors s y)
            \<and> split (nat k) (shuffle env) (matrices s X) (vectors s y)
                = (Inr folds :: 'e error + _)
            \<and> res = kfold_loop X y k
                    (or_default update_frequency (int (length (vectors s y)) - 1))
                    (case metric of None \<Rightarrow> mean_squared_error env | Some f \<Rightarrow> f)
                    train_on_minority concise folds []
                    \<lparr>memory = s,
                     model_obj = (case model of None \<Rightarrow> LinearRegression env | Some m \<Rightarrow> m),
                     logged = []\<rparr>
            \<and> train_n_test env s X y n_folds update_frequency model metric train_on_minority
                concise = \<lparr>returned = fst res, world_after = snd res\<rparr>)"
proof (cases "type_of n_folds = Type_int")
  case False
  then show ?thesis by (simp add: train_n_test_not_int)
next
  case True
  then obtain k where k: "n_folds = PyInt k" by (cases n_folds) auto
  consider "k \<le> 1"
    | "2 \<le> k" "length (matrices s X) \<noteq> length (vectors s y) \<or> length (vectors s y) < nat k"
    | "2 \<le> k" "length (matrices s X) = length (vectors s y)" "nat k \<le> length (vectors s y)"
    by linarith
  then show ?thesis
  proof cases
    case 1
    then show ?thesis by (simp add: k train_n_test_below_two)
  next
    case 2
    then show ?thesis by (simp add: k train_n_test_bad_samples)
  next
    case 3
    from train_n_test_loop[OF 3, of env update_frequency metric train_on_minority concise model] 3
    show ?thesis unfolding k by blast
  qed
qed

lemma train_n_test_no_zero_division:
  fixes env :: "('a, 'b, 'm, 'p, 's, 'e) sklearn"
  shows "returned (train_n_test env s X y n_folds update_frequency model metric
     train_on_minority concise) \<noteq> Inl ZeroDivisionError"
  using train_n_test_cases[of env s X y n_folds update_frequency model metric train_on_minority
      concise]
proof (elim disjE exE conjE)
  fix e :: "'e error"
  assume "e \<noteq> ZeroDivisionError"
    and "train_n_test env s X y n_folds update_frequency model metric train_on_minority concise =
              \<lparr>returned = Inl e,
               world_after = \<lparr>memory = s,
                 model_obj = (case model of None \<Rightarrow> LinearRegression env | Some m \<Rightarrow> m),
                 logged = []\<rparr>\<rparr>"
  then show ?thesis by simp
next
  fix k folds res
  assume k: "2 \<le> k" "nat k \<le> length (vectors s y)"
    and res: "res = kfold_loop X y k
                    (or_default update_frequency (int (length (vectors s y)) - 1))
                    (case metric of None \<Rightarrow> mean_squared_error env | Some f \<Rightarrow> f)
                    train_on_minority concise folds []
                    \<lparr>memory = s,
                     model_obj = (case model of None \<Rightarrow> LinearRegression env | Some m \<Rightarrow> m),
                     logged = []\<rparr>"
    and t: "train_n_test env s X y n_folds update_frequency model metric train_on_minority
                concise = \<lparr>returned = fst res, world_after = snd res\<rparr>"
  from k have "2 \<le> length (vectors s y)" by simp
  then have nz: "or_default update_frequency (int (length (vectors s y)) - 1) \<noteq> 0"
    by (rule or_default_nonzero)
  have "fst res \<noteq> Inl ZeroDivisionError"
    unfolding res by (rule kfold_loop_no_zero_division[OF nz])
  then show ?thesis by (simp add: t)
qed

text \<open>
  A valid call against the comparison: the folds exist, the call returns what the rounds
  over them return and leaves the model they leave, and every array allocated before the
  call is as it was.
\<close>

lemma train_n_test_rounds:
  fixes env :: "('a, 'b, 'm, 'p, 's, 'e) sklearn"
  assumes k: "2 \<le> k" "nat k \<le> length (vectors s y)"
    and aligned: "length (matrices s X) = length (vectors s y)"
    and alloc: "X < fresh s" "y < fresh s"
  shows "\<exists>folds. split (nat k) (shuffle env) (matrices s X) (vectors s y)
         = (Inr folds :: 'e error + _)
     \<and> returned (train_n_test env s X y (PyInt k) update_frequency model metric
          train_on_minority concise)
       = fst (rounds (case metric of None \<Rightarrow> mean_squared_error env | Some f \<Rightarrow> f)
                (matrices s X) (vectors s y)
                (if train_on_minority then map prod.swap folds else folds) []
                (case model of None \<Rightarrow> LinearRegression env | Some m \<Rightarrow> m))
     \<and> model_obj (world_after (train_n_test env s X y (PyInt k) update_frequency model metric
          train_on_minority concise))
       = snd (rounds (case metric of None \<Rightarrow> mean_squared_error env | Some f \<Rightarrow> f)
                (matrices s X) (vectors s y)
                (if train_on_minority then map prod.swap folds else folds) []
                (case model of None \<Rightarrow> LinearRegression env | Some m \<Rightarrow> m))
     \<and> (\<forall>a<fresh s.
          matrices (memory (world_after (train_n_test env s X y (PyInt k) update_frequency model
            metric train_on_minority concise))) a = matrices s a
        \<and> vectors (memory (world_after (train_n_test env s X y (PyInt k) update_frequency model
            metric train_on_minority concise))) a = vectors s a)"
proof -
  let ?w = "\<lparr>memory = s,
            model_obj = (case model of None \<Rightarrow> LinearRegression env | Some m \<Rightarrow> m),
            logged = []\<rparr>"
  from train_n_test_loop[OF k(1) aligned k(2), of env update_frequency metric train_on_minority
      concise model]
  obtain folds res where
    folds: "split (nat k) (shuffle env) (matrices s X) (vectors s y) = (Inr folds :: 'e error + _)"
    and res: "res = kfold_loop X y k (or_default update_frequency (int (length (vectors s y)) - 1))
                 (case metric of None \<Rightarrow> mean_squared_error env | Some f \<Rightarrow> f)
                 train_on_minority concise folds [] ?w"
    and t: "train_n_test env s X y (PyInt k) update_frequency model metric train_on_minority
              concise = \<lparr>returned = fst res, world_after = snd res\<rparr>"
    by blast
  from k have "2 \<le> length (vectors s y)" by simp
  then have nz: "or_default update_frequency (int (length (vectors s y)) - 1) \<noteq> 0"
    by (rule or_default_nonzero)
  have w: "fresh s \<le> fresh (memory ?w)"
    "length (matrices (memory ?w) X) = length (vectors (memory ?w) y)"
    "list_all (\<lambda>part. list_all (\<lambda>i. i < length (matrices (memory ?w) X)) (fst part)
                          \<and> list_all (\<lambda>i. i < length (matrices (memory ?w) X)) (snd part)) folds"
    using aligned split_Inr_bounds[OF folds] by simp_all
  from kfold_loop_refines[OF nz alloc w, of k
      "case metric of None \<Rightarrow> mean_squared_error env | Some f \<Rightarrow> f" train_on_minority concise "[]"]
  show ?thesis
    using folds unfolding t res by (intro exI[of _ folds]) simp
qed

lemma fit_on_score_on_model:
  "fit (snd (fit_on_score_on metric table targets fit_rows score_rows m)) = fit m
   \<and> predict (snd (fit_on_score_on metric table targets fit_rows score_rows m)) = predict m
   \<and> ((\<forall>st rows ys. fst (snd (fit m st rows ys)) = st)
        \<longrightarrow> (\<forall>st rows. fst (snd (predict m st rows)) = st)
        \<longrightarrow> snd (fit_on_score_on metric table targets fit_rows score_rows m) = m)"
proof -
  obtain r fitted rows entries where
    f: "fit m (state m) (map ((!) table) fit_rows) (map ((!) targets) fit_rows)
          = (r, fitted, rows, entries)"
    by (cases "fit m (state m) (map ((!) table) fit_rows) (map ((!) targets) fit_rows)")
  obtain r' left rows' where
    p: "predict m fitted (map ((!) table) score_rows) = (r', left, rows')"
    by (cases "predict m fitted (map ((!) table) score_rows)")
  have "(\<forall>st rows ys. fst (snd (fit m st rows ys)) = st) \<Longrightarrow> fitted = state m"
    using f by (metis fst_conv snd_conv)
  moreover have "(\<forall>st rows. fst (snd (predict m st rows)) = st) \<Longrightarrow> left = fitted"
    using p by (metis fst_conv snd_conv)
  ultimately show ?thesis
    using f p by (auto simp: fit_on_score_on_def split: sum.splits)
qed


lemma rounds_model:
  "fit (snd (rounds metric table targets pairs scores m)) = fit m
   \<and> predict (snd (rounds metric table targets pairs scores m)) = predict m
   \<and> ((\<forall>st rows ys. fst (snd (fit m st rows ys)) = st)
        \<longrightarrow> (\<forall>st rows. fst (snd (predict m st rows)) = st)
        \<longrightarrow> snd (rounds metric table targets pairs scores m) = m)"
proof (induction pairs arbitrary: scores m)
  case Nil
  show ?case by simp
next
  case (Cons pair pairs)
  obtain r m' where f: "fit_on_score_on metric table targets (fst pair) (snd pair) m = (r, m')"
    by (cases "fit_on_score_on metric table targets (fst pair) (snd pair) m")
  from fit_on_score_on_model[of metric table targets "fst pair" "snd pair" m] f
  have m': "fit m' = fit m" "predict m' = predict m"
    "(\<forall>st rows ys. fst (snd (fit m st rows ys)) = st)
        \<longrightarrow> (\<forall>st rows. fst (snd (predict m st rows)) = st) \<longrightarrow> m' = m"
    by simp_all
  show ?case
  proof (cases r)
    case (Inl e)
    with f m' show ?thesis by simp
  next
    case (Inr score)
    with f m' Cons.IH[of "scores @ [score]" m'] show ?thesis by auto
  qed
qed





section \<open>Properties of the cross-validation\<close>

text \<open>
  Claim C1, as the code has it. The claim says that an omitted \<open>update_frequency\<close>
  defaults to \<open>n_folds - 1\<close>. The code takes \<^verbatim>\<open>len(y) - 1\<close>, the number of rows less
  one: a call that omits \<open>update_frequency\<close> is the call that passes \<open>len(y) - 1\<close>.
\<close>

theorem omitted_update_frequency_is_rows_less_one:
  "or_default None (int (length (vectors s y)) - 1) = int (length (vectors s y)) - 1
   \<and> train_n_test env s X y n_folds None model metric train_on_minority concise
       = train_n_test env s X y n_folds (Some (int (length (vectors s y)) - 1)) model metric
           train_on_minority concise"
  by (simp add: train_n_test_def or_default_def)

text \<open>
  Counterexample to claim C1 as stated: five rows in two folds. With \<open>update_frequency\<close>
  omitted there is one notice, for the first study; with \<open>n_folds - 1 = 1\<close> there is a
  notice for each of the two studies.
\<close>

theorem omitted_update_frequency_counterexample:
  "logged (world_after (train_n_test example_env example_store example_X example_y (PyInt 2)
      None None None False True))
     = [Concise 1 2 2 3]
   \<and> logged (world_after (train_n_test example_env example_store example_X example_y (PyInt 2)
      (Some (2 - 1)) None None False True))
     = [Concise 1 2 2 3, Concise 2 2 3 2]"
  by code_simp

text \<open>
  Claim C2: a call whose \<open>n_folds\<close> is 0 or is not an \<^verbatim>\<open>int\<close> fails with an
  invalid-argument error (\<^verbatim>\<open>ValueError\<close> from the splitter's constructor for 0,
  \<^verbatim>\<open>AssertionError\<close> from the function's own assertion otherwise) before any work:
  the store is untouched, nothing is logged, no score exists, and the model is the one
  passed in, never fitted.
\<close>

theorem invalid_fold_count_is_rejected:
  assumes "n_folds = PyInt 0 \<or> type_of n_folds \<noteq> Type_int"
  shows "train_n_test env s X y n_folds update_frequency model metric train_on_minority concise =
     \<lparr>returned = Inl (if n_folds = PyInt 0 then ValueError else AssertionError),
      world_after =
        \<lparr>memory = s,
         model_obj = (case model of None \<Rightarrow> LinearRegression env | Some m \<Rightarrow> m),
         logged = []\<rparr>\<rparr>"
  using assms
  by (auto simp: train_n_test_not_int train_n_test_below_two)

theorem invalid_fold_count_is_rejected_witness:
  "train_n_test example_env example_store example_X example_y (PyInt 0) None (Some example_model)
      None False True
     = \<lparr>returned = Inl ValueError,
        world_after = \<lparr>memory = example_store, model_obj = example_model, logged = []\<rparr>\<rparr>
   \<and> train_n_test example_env example_store example_X example_y (PyFloat (5 / 2)) None
        (Some example_model) None False True
     = \<lparr>returned = Inl AssertionError,
        world_after = \<lparr>memory = example_store, model_obj = example_model, logged = []\<rparr>\<rparr>"
  using invalid_fold_count_is_rejected [of "PyInt 0" example_env example_store example_X example_y
      None "Some example_model" None False True]
    invalid_fold_count_is_rejected [of "PyFloat (5 / 2)" example_env example_store example_X
      example_y None "Some example_model" None False True]
  by simp




text \<open>
  Claim C4, as the code has it. The claim says that \<open>update_frequency = 0\<close> reaches a
  division by zero in \<^verbatim>\<open>len(scores) % update_frequency\<close>. In
  \<^verbatim>\<open>update_frequency or len(y) - 1\<close> the value 0 is falsy, so a call with 0 is the
  call with \<open>update_frequency\<close> omitted; the divisor is \<open>len(y) - 1\<close>, and the loop is
  only entered when the splitter has accepted at least two rows. No call raises
  \<^verbatim>\<open>ZeroDivisionError\<close> from the modulo.
\<close>

theorem zero_update_frequency_is_omitted:
  "train_n_test env s X y n_folds (Some 0) model metric train_on_minority concise
     = train_n_test env s X y n_folds None model metric train_on_minority concise
   \<and> returned (train_n_test env s X y n_folds (Some 0) model metric train_on_minority concise)
       \<noteq> Inl ZeroDivisionError"
  by (simp add: train_n_test_no_zero_division) (simp add: train_n_test_def or_default_def)

text \<open>
  Counterexample to claim C4 as stated: a call with \<open>update_frequency = 0\<close> that returns
  its two scores, and no call with \<open>update_frequency = 0\<close> ends in a division by zero.
\<close>

theorem zero_update_frequency_counterexample:
  "returned (train_n_test example_env example_store example_X example_y (PyInt 2) (Some 0) None
      None False True)
     = Inr [5, 221]
   \<and> \<not> (\<exists>s X y n_folds model metric train_on_minority concise.
          returned (train_n_test example_env s X y n_folds (Some 0) model metric
            train_on_minority concise) = Inl ZeroDivisionError)"
proof
  show "returned (train_n_test example_env example_store example_X example_y (PyInt 2) (Some 0)
          None None False True) = Inr [5, 221]"
    by code_simp
  show "\<not> (\<exists>s X y n_folds model metric train_on_minority concise.
          returned (train_n_test example_env s X y n_folds (Some 0) model metric
            train_on_minority concise) = Inl ZeroDivisionError)"
    by (simp add: train_n_test_no_zero_division)
qed

text \<open>
  Claim C7: on the folds the splitter produces, a call with \<open>train_on_minority = True\<close>
  fits the model on each fold's test index set and scores it on the fold's train index
  set, exactly the roles exchanged with respect to the call with
  \<open>train_on_minority = False\<close>, which fits on the train index set and scores on the
  test index set. What each call returns and the model it leaves are those of the rounds
  that fit on the first and score on the second index set of each pair: the pairs
  \<open>(train, test)\<close> without the swap, the pairs \<open>(test, train)\<close> with it.
\<close>

theorem swapped_roles:
  fixes env :: "('a, 'b, 'm, 'p, 's, 'e) sklearn"
  assumes k: "2 \<le> k" "nat k \<le> length (vectors s y)"
    and aligned: "length (matrices s X) = length (vectors s y)"
    and alloc: "X < fresh s" "y < fresh s"
    and mdl: "mdl = (case model of None \<Rightarrow> LinearRegression env | Some m \<Rightarrow> m)"
    and met: "met = (case metric of None \<Rightarrow> mean_squared_error env | Some f \<Rightarrow> f)"
  shows "\<exists>folds.
           split (nat k) (shuffle env) (matrices s X) (vectors s y) = (Inr folds :: 'e error + _)
         \<and> returned (train_n_test env s X y (PyInt k) update_frequency model metric True concise)
             = fst (rounds met (matrices s X) (vectors s y)
                      (map (\<lambda>(train, test). (test, train)) folds) [] mdl)
         \<and> model_obj (world_after (train_n_test env s X y (PyInt k) update_frequency model metric
              True concise))
             = snd (rounds met (matrices s X) (vectors s y)
                      (map (\<lambda>(train, test). (test, train)) folds) [] mdl)
         \<and> returned (train_n_test env s X y (PyInt k) update_frequency model metric False concise)
             = fst (rounds met (matrices s X) (vectors s y) folds [] mdl)
         \<and> model_obj (world_after (train_n_test env s X y (PyInt k) update_frequency model metric
              False concise))
             = snd (rounds met (matrices s X) (vectors s y) folds [] mdl)"
proof -
  have sw: "\<And>folds :: (nat list \<times> nat list) list.
      map (\<lambda>(train, test). (test, train)) folds = map prod.swap folds"
    by (simp add: prod.swap_def case_prod_beta)
  from train_n_test_rounds[OF k aligned alloc, of env update_frequency model metric True concise]
  obtain folds where
    folds: "split (nat k) (shuffle env) (matrices s X) (vectors s y) = (Inr folds :: 'e error + _)"
    and t: "returned (train_n_test env s X y (PyInt k) update_frequency model metric True concise)
             = fst (rounds met (matrices s X) (vectors s y) (map prod.swap folds) [] mdl)"
      "model_obj (world_after (train_n_test env s X y (PyInt k) update_frequency model metric
              True concise))
             = snd (rounds met (matrices s X) (vectors s y) (map prod.swap folds) [] mdl)"
    unfolding mdl met by auto
  from train_n_test_rounds[OF k aligned alloc, of env update_frequency model metric False concise]
    folds
  have f: "returned (train_n_test env s X y (PyInt k) update_frequency model metric False concise)
             = fst (rounds met (matrices s X) (vectors s y) folds [] mdl)"
      "model_obj (world_after (train_n_test env s X y (PyInt k) update_frequency model metric
              False concise))
             = snd (rounds met (matrices s X) (vectors s y) folds [] mdl)"
    unfolding mdl met by auto
  from folds t f show ?thesis
    unfolding sw by blast
qed

theorem swapped_roles_witness:
  "returned (train_n_test example_env example_store example_X example_y (PyInt 2) None None None
      True True) = Inr [221, 5]
   \<and> state (model_obj (world_after (train_n_test example_env example_store example_X example_y
      (PyInt 2) None None None True True))) = 3
   \<and> returned (train_n_test example_env example_store example_X example_y (PyInt 2) None None None
      False True) = Inr [5, 221]
   \<and> state (model_obj (world_after (train_n_test example_env example_store example_X example_y
      (PyInt 2) None None None False True))) = 12"
proof -
  have h1: "(2 :: int) \<le> 2"
    and h2: "nat 2 \<le> length (vectors example_store example_y)"
    and h3: "length (matrices example_store example_X) = length (vectors example_store example_y)"
    and h4: "example_X < fresh example_store" and h5: "example_y < fresh example_store"
    by (simp_all add: example_store_def example_X_def example_y_def)
  have h6: "example_model = (case None of None \<Rightarrow> LinearRegression example_env | Some m \<Rightarrow> m)"
    and h7: "example_metric
      = (case None of None \<Rightarrow> mean_squared_error example_env | Some f \<Rightarrow> f)"
    by (simp_all add: example_env_def)
  have sp: "split (nat 2) (shuffle example_env) (matrices example_store example_X)
      (vectors example_store example_y)
      = (Inr [([0, 1], [2, 3, 4]), ([2, 3, 4], [0, 1])] :: unit error + _)"
    by code_simp
  have swapped: "rounds example_metric (matrices example_store example_X)
      (vectors example_store example_y)
      (map (\<lambda>(train, test). (test, train)) [([0, 1], [2, 3, 4]), ([2, 3, 4], [0, 1])]) []
      example_model = (Inr [221, 5], example_model\<lparr>state := 3\<rparr>)"
    by (simp add: example_store_def example_X_def example_y_def example_model_def
        example_metric_def fit_on_score_on_def)
  have plain: "rounds example_metric (matrices example_store example_X)
      (vectors example_store example_y) [([0, 1], [2, 3, 4]), ([2, 3, 4], [0, 1])] []
      example_model = (Inr [5, 221], example_model\<lparr>state := 12\<rparr>)"
    by (simp add: example_store_def example_X_def example_y_def example_model_def
        example_metric_def fit_on_score_on_def)
  from swapped_roles [OF h1 h2 h3 h4 h5 h6 h7, of None] sp swapped plain
  show ?thesis by auto
qed

text \<open>
  Claim C9, as the code has it. The claim says that the feature table, the target and
  the injected model are the same after the call as before. The table and the target
  are, and so is every array the caller had before the call, whatever the model and the
  metric do to the arrays they are handed: those are new arrays, made by indexing. The
  model is not: \<^verbatim>\<open>fit\<close> and \<^verbatim>\<open>predict\<close> are called on the injected object in every
  fold, so its state is the one they left. Its methods are untouched, and a model whose
  methods do not change its state is unchanged.
\<close>

theorem call_leaves_arrays_and_changes_model_state_only:
  fixes env :: "('a, 'b, 'm, 'p, 's, 'e) sklearn"
  assumes alloc: "X < fresh s" "y < fresh s"
  shows "matrices (memory (world_after (train_n_test env s X y n_folds update_frequency (Some m)
            metric train_on_minority concise))) X = matrices s X
       \<and> vectors (memory (world_after (train_n_test env s X y n_folds update_frequency (Some m)
            metric train_on_minority concise))) y = vectors s y
       \<and> (\<forall>a<fresh s.
            matrices (memory (world_after (train_n_test env s X y n_folds update_frequency
              (Some m) metric train_on_minority concise))) a = matrices s a
          \<and> vectors (memory (world_after (train_n_test env s X y n_folds update_frequency
              (Some m) metric train_on_minority concise))) a = vectors s a)
       \<and> fit (model_obj (world_after (train_n_test env s X y n_folds update_frequency (Some m)
            metric train_on_minority concise))) = fit m
       \<and> predict (model_obj (world_after (train_n_test env s X y n_folds update_frequency
            (Some m) metric train_on_minority concise))) = predict m
       \<and> ((\<forall>st rows ys. fst (snd (fit m st rows ys)) = st)
            \<longrightarrow> (\<forall>st rows. fst (snd (predict m st rows)) = st)
            \<longrightarrow> model_obj (world_after (train_n_test env s X y n_folds update_frequency (Some m)
                  metric train_on_minority concise)) = m)"
  using train_n_test_cases[of env s X y n_folds update_frequency "Some m" metric
      train_on_minority concise]
proof (elim disjE exE conjE)
  fix e :: "'e error"
  assume "train_n_test env s X y n_folds update_frequency (Some m) metric train_on_minority
      concise =
              \<lparr>returned = Inl e,
               world_after = \<lparr>memory = s,
                 model_obj = (case Some m of None \<Rightarrow> LinearRegression env | Some m \<Rightarrow> m),
                 logged = []\<rparr>\<rparr>"
  then show ?thesis by simp
next
  fix k folds res
  assume nf: "n_folds = PyInt k" and k: "2 \<le> k" "nat k \<le> length (vectors s y)"
    and aligned: "length (matrices s X) = length (vectors s y)"
  from train_n_test_rounds[OF k aligned alloc, of env update_frequency "Some m" metric
      train_on_minority concise]
  obtain pairs where
    mo: "model_obj (world_after (train_n_test env s X y n_folds update_frequency (Some m) metric
          train_on_minority concise))
       = snd (rounds (case metric of None \<Rightarrow> mean_squared_error env | Some f \<Rightarrow> f)
                (matrices s X) (vectors s y) pairs [] m)"
    and fr: "\<forall>a<fresh s.
          matrices (memory (world_after (train_n_test env s X y n_folds update_frequency (Some m)
            metric train_on_minority concise))) a = matrices s a
        \<and> vectors (memory (world_after (train_n_test env s X y n_folds update_frequency (Some m)
            metric train_on_minority concise))) a = vectors s a"
    unfolding nf by auto
  from rounds_model[of "case metric of None \<Rightarrow> mean_squared_error env | Some f \<Rightarrow> f"
      "matrices s X" "vectors s y" pairs "[]" m]
  have "fit (model_obj (world_after (train_n_test env s X y n_folds update_frequency (Some m)
            metric train_on_minority concise))) = fit m"
    "predict (model_obj (world_after (train_n_test env s X y n_folds update_frequency
            (Some m) metric train_on_minority concise))) = predict m"
    "(\<forall>st rows ys. fst (snd (fit m st rows ys)) = st)
            \<longrightarrow> (\<forall>st rows. fst (snd (predict m st rows)) = st)
            \<longrightarrow> model_obj (world_after (train_n_test env s X y n_folds update_frequency (Some m)
                  metric train_on_minority concise)) = m"
    unfolding mo by simp_all
  with fr alloc show ?thesis by simp
qed

theorem call_leaves_arrays_and_changes_model_state_only_witness:
  "matrices (memory (world_after (train_n_test example_env example_store example_X example_y
      (PyInt 2) None (Some example_fixed_model) None False True))) example_X
     = [[1], [2], [3], [4], [5]]
   \<and> vectors (memory (world_after (train_n_test example_env example_store example_X example_y
      (PyInt 2) None (Some example_fixed_model) None False True))) example_y
     = [1, 2, 3, 4, 5]
   \<and> model_obj (world_after (train_n_test example_env example_store example_X example_y
      (PyInt 2) None (Some example_fixed_model) None False True)) = example_fixed_model"
proof -
  have h1: "example_X < fresh example_store" and h2: "example_y < fresh example_store"
    by (simp_all add: example_store_def example_X_def example_y_def)
  have q: "\<forall>st rows ys. fst (snd (fit example_fixed_model st rows ys)) = st"
    "\<forall>st rows. fst (snd (predict example_fixed_model st rows)) = st"
    by (simp_all add: example_fixed_model_def)
  have c: "matrices example_store example_X = [[1], [2], [3], [4], [5]]"
    "vectors example_store example_y = [1, 2, 3, 4, 5]"
    by (simp_all add: example_store_def example_X_def example_y_def)
  from call_leaves_arrays_and_changes_model_state_only [OF h1 h2, of example_env "PyInt 2" None
      example_fixed_model None False True] q c
  show ?thesis by simp
qed

text \<open>
  Counterexample to claim C9 as stated: the example model starts with state 0 and comes
  back from a two-fold run with state 12, the sum of the targets of the last training
  set.
\<close>

theorem injected_model_counterexample:
  "state example_model = 0
   \<and> state (model_obj (world_after (train_n_test example_env example_store example_X example_y
        (PyInt 2) None (Some example_model) None False True))) = 12
   \<and> model_obj (world_after (train_n_test example_env example_store example_X example_y
        (PyInt 2) None (Some example_model) None False True)) \<noteq> example_model"
proof -
  have a: "state example_model = 0"
    by (simp add: example_model_def)
  have b: "state (model_obj (world_after (train_n_test example_env example_store example_X
        example_y (PyInt 2) None (Some example_model) None False True))) = 12"
    by code_simp
  from a b show ?thesis by auto
qed

text \<open>
  Claim C10: \<open>n_folds = 1\<close> is an \<^verbatim>\<open>int\<close> and passes the assertion, yet the call
  fails: the splitter's constructor rejects \<open>n_splits = 1\<close>. A call that returns scores
  had \<open>n_folds \<ge> 2\<close>.
\<close>

theorem one_fold_is_rejected:
  "type_of (PyInt 1) = Type_int
   \<and> train_n_test env s X y (PyInt 1) update_frequency model metric train_on_minority concise =
       \<lparr>returned = Inl ValueError,
        world_after =
          \<lparr>memory = s,
           model_obj = (case model of None \<Rightarrow> LinearRegression env | Some m \<Rightarrow> m),
           logged = []\<rparr>\<rparr>
   \<and> (\<forall>k scores.
        returned (train_n_test env s X y (PyInt k) update_frequency model metric
          train_on_minority concise) = Inr scores \<longrightarrow> 2 \<le> k)"
proof (intro conjI allI impI)
  fix k scores
  assume r: "returned (train_n_test env s X y (PyInt k) update_frequency model metric
          train_on_minority concise) = Inr scores"
  show "2 \<le> k"
  proof (rule ccontr)
    assume "\<not> 2 \<le> k"
    then have "k \<le> 1" by simp
    from train_n_test_below_two[OF this, of env s X y update_frequency model metric
        train_on_minority concise] r
    show False by simp
  qed
qed (simp_all add: train_n_test_below_two)

theorem one_fold_is_rejected_witness:
  "returned (train_n_test example_env example_store example_X example_y (PyInt 1) None None None
      False True)
     = Inl ValueError
   \<and> returned (train_n_test example_env example_store example_X example_y (PyInt 2) None None None
      False True)
     = Inr [5, 221]
   \<and> (2 :: int) \<le> 2"
proof -
  have r: "returned (train_n_test example_env example_store example_X example_y (PyInt 2) None
             None None False True) = Inr [5, 221]"
    by code_simp
  from one_fold_is_rejected [of example_env example_store example_X example_y None None None
      False True] r
  show ?thesis by simp
qed

end
